theory Spec2Isabelle
  imports Main "HOL-Library.Sublist"
begin

section \<open>Data model\<close>

text \<open>
  The catalog is the JSON array imported as \<^verbatim>\<open>booksData\<close> from \<^verbatim>\<open>@/data/books.json\<close>.
  The file itself is not among the sources, so every function below takes the catalog as
  the parameter \<open>booksData\<close>. A book carries the fields the pages read. The identifier is
  a string (\<^verbatim>\<open>id: string\<close> in \<^verbatim>\<open>BookCardProps\<close>); it is called \<open>book_id\<close> here because
  \<open>id\<close> is HOL's identity function. A rating is the number of stars of a review
  (\<^verbatim>\<open>[...Array(review.rating)]\<close> draws one star per unit), a natural number.
  A string is the list of its characters; no statement below depends on which
  characters there are.
\<close>

record book_review =
  user :: string
  rating :: nat
  comment :: string

record book =
  book_id :: string
  title :: string
  author :: string
  genre :: string
  year :: int
  language :: string
  cover :: string
  description :: string
  reviews :: "book_review list"

section \<open>String operations of the host language\<close>

text \<open>
  \<^verbatim>\<open>String.prototype.toLowerCase\<close> is the host's Unicode case conversion. Its tables are
  not part of the repository, so the conversion is the parameter \<open>caseMapping\<close> of every
  function that lower-cases: a function from strings to strings, since the conversion can
  change the length of a text and looks at a letter's neighbours. The one thing fixed
  here is that the empty string converts to the empty string.
\<close>

definition toLowerCase :: "(string \<Rightarrow> string) \<Rightarrow> string \<Rightarrow> string" where
  "toLowerCase caseMapping s = (if s = [] then [] else caseMapping s)"

text \<open>
  \<^verbatim>\<open>String.prototype.includes\<close>: \<^verbatim>\<open>s.includes(q)\<close> scans the start positions of \<open>s\<close> from
  left to right and answers whether \<open>q\<close> begins at one of them. The empty \<open>q\<close> begins
  at every position, also at the end of \<open>s\<close>. (The name \<open>includes\<close> is reserved in
  Isabelle, hence \<open>str_includes\<close>.)
\<close>

fun str_includes :: "string \<Rightarrow> string \<Rightarrow> bool" where
  "str_includes [] q = (q = [])"
| "str_includes (c # s) q = (prefix q (c # s) \<or> str_includes s q)"

text \<open>
  \<^verbatim>\<open>Array.prototype.slice(start, end)\<close> for non-negative indices: the elements at
  positions \<open>start\<close> up to, not including, the end index, as far as the array has them.
\<close>

definition slice :: "nat \<Rightarrow> nat \<Rightarrow> 'a list \<Rightarrow> 'a list" where
  "slice start finish xs = drop start (take finish xs)"

section \<open>LibraryContext: the bookmarks state\<close>

text \<open>
  \<^verbatim>\<open>LibraryProvider\<close> holds \<^verbatim>\<open>bookmarks: string[]\<close>, initially \<^verbatim>\<open>[]\<close>. Each operation is
  a state update \<^verbatim>\<open>setBookmarks(prev => ...)\<close>; the model takes the previous list and
  returns the next one. \<^verbatim>\<open>isBookmarked\<close> reads the current list.
\<close>

definition initialBookmarks :: "string list" where
  "initialBookmarks = []"

definition addBookmark :: "string \<Rightarrow> string list \<Rightarrow> string list" where
  "addBookmark bookId prev = prev @ [bookId]"

definition removeBookmark :: "string \<Rightarrow> string list \<Rightarrow> string list" where
  "removeBookmark bookId prev = filter (\<lambda>i. i \<noteq> bookId) prev"

definition isBookmarked :: "string list \<Rightarrow> string \<Rightarrow> bool" where
  "isBookmarked bookmarks bookId = (bookId \<in> set bookmarks)"

text \<open>
  The bookmark button of \<^verbatim>\<open>BookCard\<close> and of \<^verbatim>\<open>BookDetails\<close>:
  \<^verbatim>\<open>onClick={() => bookmarked ? removeBookmark(id) : addBookmark(id)}\<close> with
  \<^verbatim>\<open>bookmarked = isBookmarked(id)\<close>.
\<close>

definition clickBookmark :: "string \<Rightarrow> string list \<Rightarrow> string list" where
  "clickBookmark bookId bookmarks =
     (if isBookmarked bookmarks bookId then removeBookmark bookId bookmarks
      else addBookmark bookId bookmarks)"

text \<open>The Profile page shows \<^verbatim>\<open>{bookmarks.length}\<close> under the label Bookmarks.\<close>

definition Profile_bookmarkCount :: "string list \<Rightarrow> nat" where
  "Profile_bookmarkCount bookmarks = length bookmarks"

text \<open>
  Sequences of provider operations, for statements about every run from the initial state.
  \<open>adds_only_new\<close> says of a run that each \<open>addBookmark b\<close> in it happens in a state
  where \<open>isBookmarked b\<close> is false, which is how the bookmark button calls it.
\<close>

datatype bookmark_op = AddBookmark string | RemoveBookmark string

fun apply_bookmark_op :: "bookmark_op \<Rightarrow> string list \<Rightarrow> string list" where
  "apply_bookmark_op (AddBookmark b) bs = addBookmark b bs"
| "apply_bookmark_op (RemoveBookmark b) bs = removeBookmark b bs"

fun run_bookmark_ops :: "bookmark_op list \<Rightarrow> string list \<Rightarrow> string list" where
  "run_bookmark_ops [] bs = bs"
| "run_bookmark_ops (x # ops) bs = run_bookmark_ops ops (apply_bookmark_op x bs)"

fun adds_only_new :: "bookmark_op list \<Rightarrow> string list \<Rightarrow> bool" where
  "adds_only_new [] bs = True"
| "adds_only_new (AddBookmark b # ops) bs =
     (\<not> isBookmarked bs b \<and> adds_only_new ops (addBookmark b bs))"
| "adds_only_new (RemoveBookmark b # ops) bs = adds_only_new ops (removeBookmark b bs)"

section \<open>Dashboard: search and filters\<close>

text \<open>
  \<^verbatim>\<open>Dashboard\<close> keeps \<^verbatim>\<open>searchQuery\<close>, \<^verbatim>\<open>genreFilter\<close> and \<^verbatim>\<open>languageFilter\<close>, initially
  the empty string, \<^verbatim>\<open>'all'\<close> and \<^verbatim>\<open>'all'\<close>. \<^verbatim>\<open>filteredBooks\<close> is \<^verbatim>\<open>booksData.filter\<close>
  with the predicate below; the page draws one card per filtered book and, when there is
  none, the line "No books found matching your criteria."
\<close>

definition filteredBooks ::
  "(string \<Rightarrow> string) \<Rightarrow> book list \<Rightarrow> string \<Rightarrow> string \<Rightarrow> string \<Rightarrow> book list" where
  "filteredBooks caseMapping booksData searchQuery genreFilter languageFilter =
     filter (\<lambda>book.
       let matchesSearch =
             (str_includes (toLowerCase caseMapping (title book))
                (toLowerCase caseMapping searchQuery)
              \<or> str_includes (toLowerCase caseMapping (author book))
                (toLowerCase caseMapping searchQuery));
           matchesGenre = (genreFilter = ''all'' \<or> genre book = genreFilter);
           matchesLanguage = (languageFilter = ''all'' \<or> language book = languageFilter)
       in matchesSearch \<and> matchesGenre \<and> matchesLanguage) booksData"

record dashboard =
  dashboard_searchQuery :: string
  dashboard_genreFilter :: string
  dashboard_languageFilter :: string

definition initialDashboard :: dashboard where
  "initialDashboard =
     \<lparr>dashboard_searchQuery = [], dashboard_genreFilter = ''all'',
      dashboard_languageFilter = ''all''\<rparr>"

record dashboard_view =
  booksGrid :: "book list"
  noBooksFound :: bool

definition Dashboard :: "(string \<Rightarrow> string) \<Rightarrow> book list \<Rightarrow> dashboard \<Rightarrow> dashboard_view" where
  "Dashboard caseMapping booksData st =
     (let shown = filteredBooks caseMapping booksData (dashboard_searchQuery st)
                    (dashboard_genreFilter st) (dashboard_languageFilter st)
      in \<lparr>booksGrid = shown, noBooksFound = (length shown = 0)\<rparr>)"

section \<open>Bookmarks page\<close>

text \<open>
  \<^verbatim>\<open>bookmarkedBooks = booksData.filter(book => bookmarks.includes(book.id))\<close>; the page
  draws the grid when \<^verbatim>\<open>bookmarkedBooks.length > 0\<close> and the panel "No bookmarks yet"
  otherwise.
\<close>

definition bookmarkedBooks :: "book list \<Rightarrow> string list \<Rightarrow> book list" where
  "bookmarkedBooks booksData bookmarks =
     filter (\<lambda>book. book_id book \<in> set bookmarks) booksData"

datatype bookmarks_view = BookmarksGrid "book list" | NoBookmarksYet

definition Bookmarks :: "book list \<Rightarrow> string list \<Rightarrow> bookmarks_view" where
  "Bookmarks booksData bookmarks =
     (let shown = bookmarkedBooks booksData bookmarks
      in if length shown > 0 then BookmarksGrid shown else NoBookmarksYet)"

section \<open>Home page\<close>

text \<open>
  \<^verbatim>\<open>Home\<close> keeps its own \<^verbatim>\<open>searchQuery\<close> (the hero search box) and computes
  \<^verbatim>\<open>featuredBooks = booksData.slice(0, 6)\<close> on every render.
\<close>

definition featuredBooks :: "book list \<Rightarrow> string \<Rightarrow> book list" where
  "featuredBooks booksData searchQuery = slice 0 6 booksData"

section \<open>BookDetails page\<close>

text \<open>
  The route \<^verbatim>\<open>/book/:id\<close> hands \<^verbatim>\<open>useParams().id\<close>, a string or \<^verbatim>\<open>undefined\<close>, to the
  page. \<^verbatim>\<open>booksData.find(b => b.id === id)\<close> returns the first book with that identifier.
  Without one the page is the sidebar and the line "Book not found"; with one it shows
  the book's cover, title, author, genre, year and description, the bookmark button in
  the state \<^verbatim>\<open>isBookmarked(book.id)\<close>, the book's reviews in order, and the review form
  with the page's \<^verbatim>\<open>review\<close> text and \<^verbatim>\<open>rating\<close>.
\<close>

record book_page =
  shown_cover :: string
  shown_title :: string
  shown_author :: string
  shown_genre :: string
  shown_year :: int
  shown_description :: string
  shown_bookmarked :: bool
  shown_reviews :: "book_review list"
  form_review :: string
  form_rating :: nat

datatype details_view = BookNotFound | BookPage book_page

definition bookPage :: "book \<Rightarrow> string list \<Rightarrow> string \<Rightarrow> nat \<Rightarrow> book_page" where
  "bookPage book bookmarks review stars =
     \<lparr>shown_cover = cover book, shown_title = title book, shown_author = author book,
      shown_genre = genre book, shown_year = year book,
      shown_description = description book,
      shown_bookmarked = isBookmarked bookmarks (book_id book),
      shown_reviews = reviews book, form_review = review, form_rating = stars\<rparr>"

definition BookDetails ::
  "book list \<Rightarrow> string list \<Rightarrow> string \<Rightarrow> nat \<Rightarrow> string option \<Rightarrow> details_view" where
  "BookDetails booksData bookmarks review stars routeId =
     (case find (\<lambda>b. Some (book_id b) = routeId) booksData of
        None \<Rightarrow> BookNotFound
      | Some book \<Rightarrow> BookPage (bookPage book bookmarks review stars))"

section \<open>The client as a whole\<close>

text \<open>
  Everything the pages can change, in one record: the bookmarks of \<^verbatim>\<open>LibraryProvider\<close>,
  the \<^verbatim>\<open>useState\<close> cells of BookDetails (\<^verbatim>\<open>review\<close>, initially empty, and \<^verbatim>\<open>rating\<close>,
  initially 5), of Dashboard, of Home and of AudioPlayer, the toasts raised so far and the
  router's current path. The imported \<^verbatim>\<open>booksData\<close> array is part of the record as
  \<open>catalog\<close>, so that a handler writing to it would show. The cells of a page stay in
  the record while another page is on screen; React starts them afresh when the page is
  mounted again, which no statement below depends on. (\<^verbatim>\<open>logout\<close> belongs to
  AuthContext, which is not among the sources, and has no event here.)
\<close>

record toast =
  toast_title :: string
  toast_description :: string

record client =
  catalog :: "book list"
  lib_bookmarks :: "string list"
  details_review :: string
  details_rating :: nat
  dashboard_state :: dashboard
  home_searchQuery :: string
  audio_isPlaying :: bool
  audio_progress :: "nat list"
  audio_volume :: "nat list"
  toasts :: "toast list"
  location :: string

definition initialClient :: "book list \<Rightarrow> client" where
  "initialClient booksData =
     \<lparr>catalog = booksData, lib_bookmarks = initialBookmarks, details_review = [],
      details_rating = 5, dashboard_state = initialDashboard, home_searchQuery = [],
      audio_isPlaying = False, audio_progress = [30], audio_volume = [70], toasts = [],
      location = ''/''\<rparr>"

text \<open>
  \<^verbatim>\<open>handleAddReview\<close> of BookDetails: a toast, then \<^verbatim>\<open>setReview('')\<close>. Nothing else.
\<close>

definition handleAddReview :: "client \<Rightarrow> client" where
  "handleAddReview s =
     s\<lparr>toasts := toasts s @
          [\<lparr>toast_title = ''Review Added!'',
            toast_description = ''Your review has been submitted.''\<rparr>],
       details_review := []\<rparr>"

text \<open>
  The events of the pages, each with the handler the source attaches to it.
  \<^verbatim>\<open>handleRegenerate\<close> of Recommendations raises one toast at once and a second one from
  its \<^verbatim>\<open>setTimeout\<close> callback, which is an event of its own.
\<close>

datatype event =
    BookmarkClicked string
  | ReviewTyped string
  | StarClicked nat
  | ReviewSubmitted
  | SearchTyped string
  | GenreSelected string
  | LanguageSelected string
  | HomeSearchTyped string
  | RegenerateClicked
  | RegenerateDone
  | PlayPauseClicked
  | ProgressMoved "nat list"
  | VolumeMoved "nat list"
  | Navigated string

fun step :: "event \<Rightarrow> client \<Rightarrow> client" where
  "step (BookmarkClicked b) s = s\<lparr>lib_bookmarks := clickBookmark b (lib_bookmarks s)\<rparr>"
| "step (ReviewTyped t) s = s\<lparr>details_review := t\<rparr>"
| "step (StarClicked n) s = s\<lparr>details_rating := n\<rparr>"
| "step ReviewSubmitted s = handleAddReview s"
| "step (SearchTyped q) s =
     s\<lparr>dashboard_state := (dashboard_state s)\<lparr>dashboard_searchQuery := q\<rparr>\<rparr>"
| "step (GenreSelected g) s =
     s\<lparr>dashboard_state := (dashboard_state s)\<lparr>dashboard_genreFilter := g\<rparr>\<rparr>"
| "step (LanguageSelected l) s =
     s\<lparr>dashboard_state := (dashboard_state s)\<lparr>dashboard_languageFilter := l\<rparr>\<rparr>"
| "step (HomeSearchTyped q) s = s\<lparr>home_searchQuery := q\<rparr>"
| "step RegenerateClicked s =
     s\<lparr>toasts := toasts s @
          [\<lparr>toast_title = ''Generating Recommendations...'',
            toast_description = ''AI is analyzing your reading patterns.''\<rparr>]\<rparr>"
| "step RegenerateDone s =
     s\<lparr>toasts := toasts s @
          [\<lparr>toast_title = ''Done!'',
            toast_description = ''Your recommendations have been updated.''\<rparr>]\<rparr>"
| "step PlayPauseClicked s = s\<lparr>audio_isPlaying := \<not> audio_isPlaying s\<rparr>"
| "step (ProgressMoved p) s = s\<lparr>audio_progress := p\<rparr>"
| "step (VolumeMoved v) s = s\<lparr>audio_volume := v\<rparr>"
| "step (Navigated path) s = s\<lparr>location := path\<rparr>"

fun run :: "event list \<Rightarrow> client \<Rightarrow> client" where
  "run [] s = s"
| "run (e # es) s = run es (step e s)"

text \<open>The BookDetails page as the client in state \<open>s\<close> draws it for a route parameter.\<close>

definition BookDetails_of :: "client \<Rightarrow> string option \<Rightarrow> details_view" where
  "BookDetails_of s routeId =
     BookDetails (catalog s) (lib_bookmarks s) (details_review s) (details_rating s) routeId"

section \<open>A small catalog for concrete instances\<close>

text \<open>
  Two books in the shape of the catalog's entries, used where a statement is evaluated
  at a concrete input.
\<close>

definition sampleBook1 :: book where
  "sampleBook1 =
     \<lparr>book_id = ''1'', title = ''The Great Gatsby'', author = ''F. Scott Fitzgerald'',
      genre = ''Classic'', year = 1925, language = ''English'',
      cover = ''/covers/gatsby.jpg'', description = ''A novel of the Jazz Age.'',
      reviews = [\<lparr>user = ''Ann'', rating = 5, comment = ''Loved it''\<rparr>]\<rparr>"

definition sampleBook2 :: book where
  "sampleBook2 =
     \<lparr>book_id = ''2'', title = ''Cien anos de soledad'', author = ''Gabriel Garcia Marquez'',
      genre = ''Fiction'', year = 1967, language = ''Spanish'',
      cover = ''/covers/cien.jpg'', description = ''The Buendia family.'',
      reviews = []\<rparr>"

definition sampleCatalog :: "book list" where
  "sampleCatalog = [sampleBook1, sampleBook2]"

text \<open>
  A case conversion for the concrete instances. It agrees with the host's conversion on
  the texts used there: \<^verbatim>\<open>A\<close> to \<^verbatim>\<open>Z\<close> become \<^verbatim>\<open>a\<close> to \<^verbatim>\<open>z\<close>, the capital E with acute
  accent (code 0xC9) becomes the small one (code 0xE9), the other characters of those
  texts stay.
\<close>

definition sampleLowerChar :: "char \<Rightarrow> char" where
  "sampleLowerChar c =
     (case map_of (zip (''ABCDEFGHIJKLMNOPQRSTUVWXYZ'' @ [CHR 0xC9])
                       (''abcdefghijklmnopqrstuvwxyz'' @ [CHR 0xE9])) c of
        Some l \<Rightarrow> l
      | None \<Rightarrow> c)"

definition sampleCaseMapping :: "string \<Rightarrow> string" where
  "sampleCaseMapping s = map sampleLowerChar s"

definition sampleBook3 :: book where
  "sampleBook3 =
     \<lparr>book_id = ''3'', title = CHR 0xC9 # ''cole'', author = ''Anne Martin'',
      genre = ''Essay'', year = 2001, language = ''French'',
      cover = ''/covers/ecole.jpg'', description = ''On schools.'',
      reviews = []\<rparr>"

section \<open>Bookmark operations: membership and frame\<close>

lemma isBookmarked_addBookmark:
  "isBookmarked (addBookmark b bs) x = (x = b \<or> isBookmarked bs x)"
  by (auto simp: isBookmarked_def addBookmark_def)

lemma isBookmarked_removeBookmark:
  "isBookmarked (removeBookmark b bs) x = (x \<noteq> b \<and> isBookmarked bs x)"
  by (auto simp: isBookmarked_def removeBookmark_def)

lemma removeBookmark_absent:
  "\<not> isBookmarked bs b \<Longrightarrow> removeBookmark b bs = bs"
  by (induction bs) (auto simp: isBookmarked_def removeBookmark_def)

lemma removeBookmark_addBookmark:
  "removeBookmark b (addBookmark b bs) = removeBookmark b bs"
  by (simp add: removeBookmark_def addBookmark_def)

text \<open>
  C3. After \<open>addBookmark b\<close> the identifier \<open>b\<close> is bookmarked, after
  \<open>removeBookmark b\<close> it is not, and from a state where \<open>b\<close> is not bookmarked
  adding and then removing \<open>b\<close> gives back the same bookmarks list.
\<close>

theorem bookmark_toggles_membership:
  "isBookmarked (addBookmark b bs) b
   \<and> \<not> isBookmarked (removeBookmark b bs) b
   \<and> (\<not> isBookmarked bs b \<longrightarrow> removeBookmark b (addBookmark b bs) = bs)"
  by (simp add: isBookmarked_addBookmark isBookmarked_removeBookmark
      removeBookmark_addBookmark removeBookmark_absent)

theorem bookmark_toggles_membership_witness:
  "isBookmarked (addBookmark ''3'' [''1'', ''2'']) ''3''
   \<and> \<not> isBookmarked (removeBookmark ''3'' [''1'', ''2'']) ''3''
   \<and> \<not> isBookmarked [''1'', ''2''] ''3''
   \<and> removeBookmark ''3'' (addBookmark ''3'' [''1'', ''2'']) = [''1'', ''2'']"
  using bookmark_toggles_membership [of "''3''" "[''1'', ''2'']"]
  by (simp add: isBookmarked_def)

text \<open>
  C7. \<open>removeBookmark b\<close> and \<open>addBookmark b\<close> leave the membership of every other
  identifier \<open>x\<close> as it was. What \<open>removeBookmark b\<close> keeps is a subsequence of the old
  list (the remaining identifiers stand in their old relative order) and holds every other
  identifier as often as before; \<open>addBookmark b\<close> keeps the old list as a prefix.
\<close>

theorem bookmark_ops_frame:
  "x \<noteq> b \<Longrightarrow>
     isBookmarked (removeBookmark b bs) x = isBookmarked bs x
     \<and> subseq (removeBookmark b bs) bs
     \<and> count_list (removeBookmark b bs) x = count_list bs x
     \<and> isBookmarked (addBookmark b bs) x = isBookmarked bs x
     \<and> prefix bs (addBookmark b bs)"
proof -
  assume neq: "x \<noteq> b"
  have cnt: "count_list (removeBookmark b bs) x = count_list bs x"
    using neq by (induction bs) (auto simp: removeBookmark_def)
  have ord: "subseq (removeBookmark b bs) bs"
    by (simp add: removeBookmark_def)
  have pre: "prefix bs (addBookmark b bs)"
    by (simp add: addBookmark_def)
  from neq cnt ord pre show ?thesis
    by (simp add: isBookmarked_addBookmark isBookmarked_removeBookmark)
qed

theorem bookmark_ops_frame_witness:
  "''1'' \<noteq> ''2''
   \<and> isBookmarked (removeBookmark ''2'' [''3'', ''2'', ''1'', ''2'']) ''1''
   \<and> removeBookmark ''2'' [''3'', ''2'', ''1'', ''2''] = [''3'', ''1'']
   \<and> subseq (removeBookmark ''2'' [''3'', ''2'', ''1'', ''2'']) [''3'', ''2'', ''1'', ''2'']
   \<and> count_list (removeBookmark ''2'' [''3'', ''2'', ''1'', ''2'']) ''1'' = 1
   \<and> isBookmarked (addBookmark ''2'' [''3'', ''1'']) ''1''
   \<and> prefix [''3'', ''1''] (addBookmark ''2'' [''3'', ''1''])"
  using bookmark_ops_frame [of "''1''" "''2''" "[''3'', ''2'', ''1'', ''2'']"]
    bookmark_ops_frame [of "''1''" "''2''" "[''3'', ''1'']"]
  by (simp add: isBookmarked_def removeBookmark_def)

section \<open>Bookmarks as a set\<close>

lemma run_bookmark_ops_distinct:
  "distinct bs \<Longrightarrow> adds_only_new ops bs \<Longrightarrow> distinct (run_bookmark_ops ops bs)"
proof (induction ops arbitrary: bs)
  case Nil
  then show ?case by simp
next
  case (Cons x ops)
  show ?case
  proof (cases x)
    case (AddBookmark b)
    with Cons.prems have "distinct (addBookmark b bs)" "adds_only_new ops (addBookmark b bs)"
      by (simp_all add: addBookmark_def isBookmarked_def)
    then show ?thesis using Cons.IH AddBookmark by simp
  next
    case (RemoveBookmark b)
    with Cons.prems have "distinct (removeBookmark b bs)"
      "adds_only_new ops (removeBookmark b bs)"
      by (simp_all add: removeBookmark_def)
    then show ?thesis using Cons.IH RemoveBookmark by simp
  qed
qed

text \<open>
  The bookmark button is such a caller: a click keeps a duplicate-free list
  duplicate-free, so does any sequence of clicks.
\<close>

lemma clickBookmark_distinct:
  "distinct bs \<Longrightarrow> distinct (clickBookmark b bs)"
  by (simp add: clickBookmark_def addBookmark_def removeBookmark_def isBookmarked_def)

lemma clicks_distinct:
  "distinct (foldl (\<lambda>bs b. clickBookmark b bs) initialBookmarks clicks)"
proof -
  have "distinct bs \<Longrightarrow> distinct (foldl (\<lambda>bs b. clickBookmark b bs) bs clicks)" for bs
    by (induction clicks arbitrary: bs) (simp_all add: clickBookmark_distinct)
  then show ?thesis by (simp add: initialBookmarks_def)
qed

text \<open>
  C2, as the code has it. \<open>addBookmark\<close> appends without looking, so the list is
  duplicate-free only along runs that call \<open>addBookmark b\<close> while \<open>b\<close> is not bookmarked.
  For every such run from the empty initial state the bookmarks list has no duplicate,
  and the count on the Profile page is the number of distinct bookmarked identifiers.
\<close>

theorem bookmarks_no_duplicates:
  "adds_only_new ops initialBookmarks \<Longrightarrow>
     distinct (run_bookmark_ops ops initialBookmarks)
     \<and> Profile_bookmarkCount (run_bookmark_ops ops initialBookmarks)
         = card (set (run_bookmark_ops ops initialBookmarks))"
proof -
  assume g: "adds_only_new ops initialBookmarks"
  have "distinct initialBookmarks" by (simp add: initialBookmarks_def)
  then have d: "distinct (run_bookmark_ops ops initialBookmarks)"
    using g by (rule run_bookmark_ops_distinct)
  then show ?thesis
    by (simp add: Profile_bookmarkCount_def distinct_card)
qed

theorem bookmarks_no_duplicates_witness:
  "adds_only_new [AddBookmark ''1'', AddBookmark ''2'', RemoveBookmark ''1'', AddBookmark ''1'']
     initialBookmarks
   \<and> run_bookmark_ops
       [AddBookmark ''1'', AddBookmark ''2'', RemoveBookmark ''1'', AddBookmark ''1'']
       initialBookmarks = [''2'', ''1'']
   \<and> distinct (run_bookmark_ops
       [AddBookmark ''1'', AddBookmark ''2'', RemoveBookmark ''1'', AddBookmark ''1'']
       initialBookmarks)
   \<and> Profile_bookmarkCount (run_bookmark_ops
       [AddBookmark ''1'', AddBookmark ''2'', RemoveBookmark ''1'', AddBookmark ''1'']
       initialBookmarks) = 2"
  using bookmarks_no_duplicates
    [of "[AddBookmark ''1'', AddBookmark ''2'', RemoveBookmark ''1'', AddBookmark ''1'']"]
  by (simp add: initialBookmarks_def addBookmark_def removeBookmark_def isBookmarked_def
      Profile_bookmarkCount_def)

text \<open>
  C2 as stated fails: two calls of \<open>addBookmark\<close> with the identifier \<open>1\<close> from the
  empty state leave the list \<open>[1, 1]\<close>; the Profile page counts 2 bookmarks for 1
  bookmarked book.
\<close>

theorem addBookmark_twice_duplicates:
  "run_bookmark_ops [AddBookmark ''1'', AddBookmark ''1''] initialBookmarks = [''1'', ''1'']
   \<and> \<not> distinct (run_bookmark_ops [AddBookmark ''1'', AddBookmark ''1''] initialBookmarks)
   \<and> Profile_bookmarkCount
        (run_bookmark_ops [AddBookmark ''1'', AddBookmark ''1''] initialBookmarks) = 2
   \<and> card (set (run_bookmark_ops [AddBookmark ''1'', AddBookmark ''1''] initialBookmarks)) = 1"
  by (simp add: initialBookmarks_def addBookmark_def Profile_bookmarkCount_def)

section \<open>Dashboard filter\<close>

lemma str_includes_sublist: "str_includes s q = sublist q s"
  by (induction s) (auto simp: sublist_Cons_right)

lemma sampleCaseMapping_GATS: "toLowerCase sampleCaseMapping ''GATS'' = ''gats''"
  by (simp add: toLowerCase_def sampleCaseMapping_def sampleLowerChar_def)

lemma sampleCaseMapping_title1:
  "toLowerCase sampleCaseMapping (title sampleBook1) = ''the great gatsby''"
  by (simp add: toLowerCase_def sampleCaseMapping_def sampleLowerChar_def sampleBook1_def)

lemma sampleCaseMapping_e_acute:
  "toLowerCase sampleCaseMapping [CHR 0xE9] = [CHR 0xE9]"
  by (simp add: toLowerCase_def sampleCaseMapping_def sampleLowerChar_def)

lemma sampleCaseMapping_title3:
  "toLowerCase sampleCaseMapping (title sampleBook3) = CHR 0xE9 # ''cole''"
  by (simp add: toLowerCase_def sampleCaseMapping_def sampleLowerChar_def sampleBook3_def)

text \<open>
  C1. Whatever the host's case conversion \<open>caseMapping\<close> is, for every search query,
  genre filter and language filter: a book of the catalog is in the filtered result
  exactly when the lower-cased query occurs as a contiguous part of its lower-cased
  title or of its lower-cased author, and the genre filter is \<open>all\<close> or equals its genre,
  and the language filter is \<open>all\<close> or equals its language.
\<close>

theorem filteredBooks_member:
  "book \<in> set booksData \<Longrightarrow>
     (book \<in> set (filteredBooks caseMapping booksData q g l)) =
       ((sublist (toLowerCase caseMapping q) (toLowerCase caseMapping (title book))
           \<or> sublist (toLowerCase caseMapping q) (toLowerCase caseMapping (author book)))
        \<and> (g = ''all'' \<or> genre book = g)
        \<and> (l = ''all'' \<or> language book = l))"
  by (simp add: filteredBooks_def str_includes_sublist)

theorem filteredBooks_member_witness:
  "sampleBook1 \<in> set sampleCatalog
   \<and> sublist (toLowerCase sampleCaseMapping ''GATS'')
       (toLowerCase sampleCaseMapping (title sampleBook1))
   \<and> genre sampleBook1 \<noteq> ''all'' \<and> genre sampleBook1 = ''Classic''
   \<and> sampleBook1 \<in> set (filteredBooks sampleCaseMapping sampleCatalog ''GATS'' ''Classic'' ''all'')
   \<and> sampleBook1 \<notin> set (filteredBooks sampleCaseMapping sampleCatalog ''GATS'' ''Fiction'' ''all'')
   \<and> sampleBook3 \<in> set [sampleBook1, sampleBook3]
   \<and> sublist (toLowerCase sampleCaseMapping [CHR 0xE9])
       (toLowerCase sampleCaseMapping (title sampleBook3))
   \<and> sampleBook3 \<in> set (filteredBooks sampleCaseMapping [sampleBook1, sampleBook3]
                            [CHR 0xE9] ''all'' ''all'')"
proof -
  have m: "sampleBook1 \<in> set sampleCatalog"
    by (simp add: sampleCatalog_def)
  have "str_includes ''the great gatsby'' ''gats''"
    by simp
  then have s: "sublist (toLowerCase sampleCaseMapping ''GATS'')
      (toLowerCase sampleCaseMapping (title sampleBook1))"
    by (simp only: str_includes_sublist sampleCaseMapping_GATS sampleCaseMapping_title1)
  have g: "genre sampleBook1 = ''Classic''"
    by (simp add: sampleBook1_def)
  have m3: "sampleBook3 \<in> set [sampleBook1, sampleBook3]"
    by simp
  have "str_includes (CHR 0xE9 # ''cole'') [CHR 0xE9]"
    by simp
  then have s3: "sublist (toLowerCase sampleCaseMapping [CHR 0xE9])
      (toLowerCase sampleCaseMapping (title sampleBook3))"
    by (simp only: str_includes_sublist sampleCaseMapping_e_acute sampleCaseMapping_title3)
  from m s g m3 s3
    filteredBooks_member [OF m, of sampleCaseMapping "''GATS''" "''Classic''" "''all''"]
    filteredBooks_member [OF m, of sampleCaseMapping "''GATS''" "''Fiction''" "''all''"]
    filteredBooks_member [OF m3, of sampleCaseMapping "[CHR 0xE9]" "''all''" "''all''"]
  show ?thesis by simp
qed

text \<open>
  C6. Whatever the case conversion, the filtered result is a subsequence of the catalog:
  its elements are catalog elements, in catalog order, none taken more often than the
  catalog has it. So it is never longer than the catalog.
\<close>

theorem filteredBooks_subseq:
  "subseq (filteredBooks caseMapping booksData q g l) booksData
   \<and> set (filteredBooks caseMapping booksData q g l) \<subseteq> set booksData
   \<and> length (filteredBooks caseMapping booksData q g l) \<le> length booksData"
  by (simp add: filteredBooks_def)

text \<open>
  C8. With the empty search query and both filters \<open>all\<close> the filtered result is the whole
  catalog, whatever the case conversion does to titles and authors; that is the
  Dashboard's initial state, whose grid therefore shows every book.
\<close>

theorem filteredBooks_empty_input:
  "filteredBooks caseMapping booksData [] ''all'' ''all'' = booksData
   \<and> booksGrid (Dashboard caseMapping booksData initialDashboard) = booksData"
proof -
  have inc: "str_includes s []" for s by (cases s) simp_all
  have "filteredBooks caseMapping booksData [] ''all'' ''all'' = booksData"
    by (simp add: filteredBooks_def toLowerCase_def inc)
  then show ?thesis by (simp add: Dashboard_def initialDashboard_def)
qed

section \<open>BookDetails: lookup and fallback\<close>

lemma find_first:
  "\<forall>x\<in>set pre. \<not> P x \<Longrightarrow> P x \<Longrightarrow> find P (pre @ x # post) = Some x"
  by (induction pre) auto

text \<open>
  C4. When the route parameter equals the identifier of no catalog book (also when it is
  undefined) the page is the "Book not found" fallback, a page like any other. When it
  equals the identifier of some catalog book, the page shows the details of a catalog
  book with that identifier: its cover, title, author, genre, year and description, its
  reviews in order, the bookmark button lit exactly when its identifier is bookmarked,
  and the review form as typed. The book shown is the first one in the catalog with that
  identifier, which is the only one when identifiers are not shared.
\<close>

theorem BookDetails_lookup:
  "((\<forall>b\<in>set booksData. Some (book_id b) \<noteq> routeId) \<longrightarrow>
      BookDetails booksData bookmarks review stars routeId = BookNotFound)
   \<and> ((\<exists>b\<in>set booksData. Some (book_id b) = routeId) \<longrightarrow>
      (\<exists>book\<in>set booksData. Some (book_id book) = routeId
         \<and> BookDetails booksData bookmarks review stars routeId
             = BookPage
                 \<lparr>shown_cover = cover book, shown_title = title book,
                  shown_author = author book, shown_genre = genre book,
                  shown_year = year book, shown_description = description book,
                  shown_bookmarked = (book_id book \<in> set bookmarks),
                  shown_reviews = reviews book,
                  form_review = review, form_rating = stars\<rparr>))
   \<and> (booksData = pre @ book # post \<and> (\<forall>b\<in>set pre. book_id b \<noteq> book_id book) \<longrightarrow>
      BookDetails booksData bookmarks review stars (Some (book_id book))
        = BookPage
            \<lparr>shown_cover = cover book, shown_title = title book,
             shown_author = author book, shown_genre = genre book,
             shown_year = year book, shown_description = description book,
             shown_bookmarked = (book_id book \<in> set bookmarks),
             shown_reviews = reviews book,
             form_review = review, form_rating = stars\<rparr>)"
proof (intro conjI impI)
  assume "\<forall>b\<in>set booksData. Some (book_id b) \<noteq> routeId"
  then have "find (\<lambda>b. Some (book_id b) = routeId) booksData = None"
    by (simp add: find_None_iff)
  then show "BookDetails booksData bookmarks review stars routeId = BookNotFound"
    by (simp add: BookDetails_def)
next
  assume "\<exists>b\<in>set booksData. Some (book_id b) = routeId"
  then have "find (\<lambda>b. Some (book_id b) = routeId) booksData \<noteq> None"
    by (auto simp: find_None_iff)
  then obtain found where f: "find (\<lambda>b. Some (book_id b) = routeId) booksData = Some found"
    by blast
  then have "found \<in> set booksData" "Some (book_id found) = routeId"
    by (auto simp: find_Some_iff in_set_conv_nth)
  moreover from f have "BookDetails booksData bookmarks review stars routeId
      = BookPage
          \<lparr>shown_cover = cover found, shown_title = title found,
           shown_author = author found, shown_genre = genre found,
           shown_year = year found, shown_description = description found,
           shown_bookmarked = (book_id found \<in> set bookmarks),
           shown_reviews = reviews found,
           form_review = review, form_rating = stars\<rparr>"
    by (simp add: BookDetails_def bookPage_def isBookmarked_def)
  ultimately show "\<exists>book\<in>set booksData. Some (book_id book) = routeId
         \<and> BookDetails booksData bookmarks review stars routeId
             = BookPage
                 \<lparr>shown_cover = cover book, shown_title = title book,
                  shown_author = author book, shown_genre = genre book,
                  shown_year = year book, shown_description = description book,
                  shown_bookmarked = (book_id book \<in> set bookmarks),
                  shown_reviews = reviews book,
                  form_review = review, form_rating = stars\<rparr>"
    by blast
next
  assume a: "booksData = pre @ book # post \<and> (\<forall>b\<in>set pre. book_id b \<noteq> book_id book)"
  then have "find (\<lambda>b. Some (book_id b) = Some (book_id book)) booksData = Some book"
    by (simp add: find_first)
  then show "BookDetails booksData bookmarks review stars (Some (book_id book))
        = BookPage
            \<lparr>shown_cover = cover book, shown_title = title book,
             shown_author = author book, shown_genre = genre book,
             shown_year = year book, shown_description = description book,
             shown_bookmarked = (book_id book \<in> set bookmarks),
             shown_reviews = reviews book,
             form_review = review, form_rating = stars\<rparr>"
    by (simp add: BookDetails_def bookPage_def isBookmarked_def)
qed

theorem BookDetails_lookup_witness:
  "BookDetails sampleCatalog [''2''] ''Good'' 4 (Some ''9'') = BookNotFound
   \<and> BookDetails sampleCatalog [''2''] ''Good'' 4 None = BookNotFound
   \<and> sampleCatalog = [sampleBook1] @ sampleBook2 # []
   \<and> book_id sampleBook1 \<noteq> book_id sampleBook2
   \<and> BookDetails sampleCatalog [''2''] ''Good'' 4 (Some ''2'')
       = BookPage
           \<lparr>shown_cover = ''/covers/cien.jpg'', shown_title = ''Cien anos de soledad'',
            shown_author = ''Gabriel Garcia Marquez'', shown_genre = ''Fiction'',
            shown_year = 1967, shown_description = ''The Buendia family.'',
            shown_bookmarked = True, shown_reviews = [],
            form_review = ''Good'', form_rating = 4\<rparr>
   \<and> BookDetails sampleCatalog [''2''] [] 5 (Some ''1'')
       = BookPage
           \<lparr>shown_cover = ''/covers/gatsby.jpg'', shown_title = ''The Great Gatsby'',
            shown_author = ''F. Scott Fitzgerald'', shown_genre = ''Classic'',
            shown_year = 1925, shown_description = ''A novel of the Jazz Age.'',
            shown_bookmarked = False,
            shown_reviews = [\<lparr>user = ''Ann'', rating = 5, comment = ''Loved it''\<rparr>],
            form_review = [], form_rating = 5\<rparr>"
proof -
  have ids: "book_id sampleBook1 = ''1''" "book_id sampleBook2 = ''2''"
    by (simp_all add: sampleBook1_def sampleBook2_def)
  have cat: "sampleCatalog = [sampleBook1] @ sampleBook2 # []"
    by (simp add: sampleCatalog_def)
  have cat1: "sampleCatalog = [] @ sampleBook1 # [sampleBook2]"
    by (simp add: sampleCatalog_def)
  have no9: "\<forall>b\<in>set sampleCatalog. Some (book_id b) \<noteq> Some ''9''"
    by (simp add: sampleCatalog_def ids)
  have noNone: "\<forall>b\<in>set sampleCatalog. Some (book_id b) \<noteq> None"
    by simp
  have first: "\<forall>b\<in>set [sampleBook1]. book_id b \<noteq> book_id sampleBook2"
    by (simp add: ids)
  note absent = BookDetails_lookup
    [of sampleCatalog "Some ''9''" "[''2'']" "''Good''" 4 "[sampleBook1]" sampleBook2 "[]"]
  note undefined_id = BookDetails_lookup
    [of sampleCatalog None "[''2'']" "''Good''" 4 "[sampleBook1]" sampleBook2 "[]"]
  note second = BookDetails_lookup
    [of sampleCatalog "Some ''2''" "[''2'']" "''Good''" 4 "[sampleBook1]" sampleBook2 "[]"]
  note firstBook = BookDetails_lookup
    [of sampleCatalog "Some ''1''" "[''2'']" "[]" 5 "[]" sampleBook1 "[sampleBook2]"]
  from absent no9 have p9: "BookDetails sampleCatalog [''2''] ''Good'' 4 (Some ''9'') = BookNotFound"
    by blast
  from undefined_id noNone
  have pN: "BookDetails sampleCatalog [''2''] ''Good'' 4 None = BookNotFound"
    by blast
  from second cat first
  have "BookDetails sampleCatalog [''2''] ''Good'' 4 (Some (book_id sampleBook2))
      = BookPage
          \<lparr>shown_cover = cover sampleBook2, shown_title = title sampleBook2,
           shown_author = author sampleBook2, shown_genre = genre sampleBook2,
           shown_year = year sampleBook2, shown_description = description sampleBook2,
           shown_bookmarked = (book_id sampleBook2 \<in> set [''2'']),
           shown_reviews = reviews sampleBook2,
           form_review = ''Good'', form_rating = 4\<rparr>"
    by blast
  then have p2: "BookDetails sampleCatalog [''2''] ''Good'' 4 (Some ''2'')
       = BookPage
           \<lparr>shown_cover = ''/covers/cien.jpg'', shown_title = ''Cien anos de soledad'',
            shown_author = ''Gabriel Garcia Marquez'', shown_genre = ''Fiction'',
            shown_year = 1967, shown_description = ''The Buendia family.'',
            shown_bookmarked = True, shown_reviews = [],
            form_review = ''Good'', form_rating = 4\<rparr>"
    by (simp add: sampleBook2_def)
  from firstBook cat1
  have "BookDetails sampleCatalog [''2''] [] 5 (Some (book_id sampleBook1))
      = BookPage
          \<lparr>shown_cover = cover sampleBook1, shown_title = title sampleBook1,
           shown_author = author sampleBook1, shown_genre = genre sampleBook1,
           shown_year = year sampleBook1, shown_description = description sampleBook1,
           shown_bookmarked = (book_id sampleBook1 \<in> set [''2'']),
           shown_reviews = reviews sampleBook1,
           form_review = [], form_rating = 5\<rparr>"
    by simp
  then have p1: "BookDetails sampleCatalog [''2''] [] 5 (Some ''1'')
       = BookPage
           \<lparr>shown_cover = ''/covers/gatsby.jpg'', shown_title = ''The Great Gatsby'',
            shown_author = ''F. Scott Fitzgerald'', shown_genre = ''Classic'',
            shown_year = 1925, shown_description = ''A novel of the Jazz Age.'',
            shown_bookmarked = False,
            shown_reviews = [\<lparr>user = ''Ann'', rating = 5, comment = ''Loved it''\<rparr>],
            form_review = [], form_rating = 5\<rparr>"
    by (simp add: sampleBook1_def)
  from p9 pN cat p2 p1 show ?thesis
    by (simp add: ids)
qed

section \<open>The catalog is read only\<close>

lemma step_catalog: "catalog (step e s) = catalog s"
  by (cases e) (simp_all add: handleAddReview_def)

lemma run_catalog: "catalog (run es s) = catalog s"
  by (induction es arbitrary: s) (simp_all add: step_catalog)

text \<open>
  C5. Submitting a review leaves the catalog as it was, and with it every book's list of
  reviews: the BookDetails page after \<open>handleAddReview\<close> is the page before it with the
  review text cleared, the reviews shown are the same. The same holds of the catalog for
  every event of the client and for every sequence of events.
\<close>

theorem catalog_immutable:
  "catalog (handleAddReview s) = catalog s
   \<and> map reviews (catalog (handleAddReview s)) = map reviews (catalog s)
   \<and> catalog (step e s) = catalog s
   \<and> catalog (run es s) = catalog s
   \<and> BookDetails_of (handleAddReview s) routeId =
       (case BookDetails_of s routeId of
          BookNotFound \<Rightarrow> BookNotFound
        | BookPage p \<Rightarrow> BookPage (p\<lparr>form_review := []\<rparr>))"
proof -
  have c: "catalog (handleAddReview s) = catalog s"
    by (simp add: handleAddReview_def)
  have p: "BookDetails_of (handleAddReview s) routeId =
       (case BookDetails_of s routeId of
          BookNotFound \<Rightarrow> BookNotFound
        | BookPage p \<Rightarrow> BookPage (p\<lparr>form_review := []\<rparr>))"
    by (simp add: BookDetails_of_def BookDetails_def handleAddReview_def bookPage_def
        split: option.split)
  from c p show ?thesis
    by (simp add: step_catalog run_catalog)
qed

section \<open>Bookmarks page and Home page\<close>

text \<open>
  C9. The Bookmarks page shows exactly the catalog books whose identifier is bookmarked,
  each as often as the catalog has it and in catalog order. A bookmarked identifier of no
  catalog book shows nowhere, and the page is the same as without it. The page is the
  grid when some catalog book is bookmarked and the "No bookmarks yet" panel otherwise.
\<close>

theorem bookmarkedBooks_shown:
  "set (bookmarkedBooks booksData bookmarks)
     = {book \<in> set booksData. isBookmarked bookmarks (book_id book)}
   \<and> subseq (bookmarkedBooks booksData bookmarks) booksData
   \<and> count_list (bookmarkedBooks booksData bookmarks) book
       = (if isBookmarked bookmarks (book_id book) then count_list booksData book else 0)
   \<and> (b \<in> set bookmarks \<and> b \<notin> book_id ` set booksData \<longrightarrow>
        b \<notin> book_id ` set (bookmarkedBooks booksData bookmarks)
        \<and> Bookmarks booksData (removeBookmark b bookmarks) = Bookmarks booksData bookmarks)
   \<and> Bookmarks booksData bookmarks =
       (if \<exists>book\<in>set booksData. isBookmarked bookmarks (book_id book)
        then BookmarksGrid (bookmarkedBooks booksData bookmarks) else NoBookmarksYet)"
proof -
  have cnt: "count_list (bookmarkedBooks booksData bookmarks) book
       = (if isBookmarked bookmarks (book_id book) then count_list booksData book else 0)"
    by (induction booksData) (auto simp: bookmarkedBooks_def isBookmarked_def)
  have omit: "bookmarkedBooks booksData (removeBookmark b bookmarks)
            = bookmarkedBooks booksData bookmarks" if "b \<notin> book_id ` set booksData"
    using that by (induction booksData) (auto simp: bookmarkedBooks_def removeBookmark_def)
  have view: "Bookmarks booksData bookmarks =
       (if \<exists>book\<in>set booksData. isBookmarked bookmarks (book_id book)
        then BookmarksGrid (bookmarkedBooks booksData bookmarks) else NoBookmarksYet)"
    by (auto simp: Bookmarks_def bookmarkedBooks_def isBookmarked_def filter_empty_conv)
  have mem: "set (bookmarkedBooks booksData bookmarks)
     = {book \<in> set booksData. isBookmarked bookmarks (book_id book)}"
    by (simp add: bookmarkedBooks_def isBookmarked_def)
  have ord: "subseq (bookmarkedBooks booksData bookmarks) booksData"
    by (simp add: bookmarkedBooks_def)
  from omit mem have om2: "b \<in> set bookmarks \<and> b \<notin> book_id ` set booksData \<longrightarrow>
        b \<notin> book_id ` set (bookmarkedBooks booksData bookmarks)
        \<and> Bookmarks booksData (removeBookmark b bookmarks) = Bookmarks booksData bookmarks"
    by (auto simp: Bookmarks_def)
  from cnt view mem ord om2 show ?thesis by (intro conjI)
qed

theorem bookmarkedBooks_shown_witness:
  "''9'' \<in> set [''9'', ''2'']
   \<and> ''9'' \<notin> book_id ` set sampleCatalog
   \<and> ''9'' \<notin> book_id ` set (bookmarkedBooks sampleCatalog [''9'', ''2''])
   \<and> Bookmarks sampleCatalog (removeBookmark ''9'' [''9'', ''2''])
       = Bookmarks sampleCatalog [''9'', ''2'']
   \<and> Bookmarks sampleCatalog [''9'', ''2''] = BookmarksGrid [sampleBook2]
   \<and> Bookmarks sampleCatalog [''9''] = NoBookmarksYet"
proof -
  have ids: "book_id sampleBook1 = ''1''" "book_id sampleBook2 = ''2''"
    by (simp_all add: sampleBook1_def sampleBook2_def)
  have h: "''9'' \<in> set [''9'', ''2''] \<and> ''9'' \<notin> book_id ` set sampleCatalog"
    by (simp add: sampleCatalog_def ids)
  have bb: "bookmarkedBooks sampleCatalog [''9'', ''2''] = [sampleBook2]"
    "bookmarkedBooks sampleCatalog [''9''] = []"
    by (simp_all add: bookmarkedBooks_def sampleCatalog_def ids)
  have some: "\<exists>book\<in>set sampleCatalog. isBookmarked [''9'', ''2''] (book_id book)"
    by (simp add: sampleCatalog_def ids isBookmarked_def)
  have none: "\<not> (\<exists>book\<in>set sampleCatalog. isBookmarked [''9''] (book_id book))"
    by (simp add: sampleCatalog_def ids isBookmarked_def)
  note two = bookmarkedBooks_shown [of sampleCatalog "[''9'', ''2'']" sampleBook2 "''9''"]
  note one = bookmarkedBooks_shown [of sampleCatalog "[''9'']" sampleBook2 "''9''"]
  from two h have omitted:
    "''9'' \<notin> book_id ` set (bookmarkedBooks sampleCatalog [''9'', ''2''])
     \<and> Bookmarks sampleCatalog (removeBookmark ''9'' [''9'', ''2''])
         = Bookmarks sampleCatalog [''9'', ''2'']"
    by blast
  from two have "Bookmarks sampleCatalog [''9'', ''2''] =
       (if \<exists>book\<in>set sampleCatalog. isBookmarked [''9'', ''2''] (book_id book)
        then BookmarksGrid (bookmarkedBooks sampleCatalog [''9'', ''2'']) else NoBookmarksYet)"
    by blast
  with some bb have grid: "Bookmarks sampleCatalog [''9'', ''2''] = BookmarksGrid [sampleBook2]"
    by simp
  from one have "Bookmarks sampleCatalog [''9''] =
       (if \<exists>book\<in>set sampleCatalog. isBookmarked [''9''] (book_id book)
        then BookmarksGrid (bookmarkedBooks sampleCatalog [''9'']) else NoBookmarksYet)"
    by blast
  with none have panel: "Bookmarks sampleCatalog [''9''] = NoBookmarksYet"
    by simp
  from h omitted grid panel show ?thesis
    by blast
qed

text \<open>
  C10. The featured books of the Home page are the first \<open>min 6 n\<close> books of a catalog of
  \<open>n\<close> books, in catalog order; they are at most 6, and they are the same whatever the
  page's search box holds.
\<close>

theorem featuredBooks_first_six:
  "featuredBooks booksData searchQuery = take (min 6 (length booksData)) booksData
   \<and> length (featuredBooks booksData searchQuery) = min 6 (length booksData)
   \<and> length (featuredBooks booksData searchQuery) \<le> 6
   \<and> prefix (featuredBooks booksData searchQuery) booksData
   \<and> featuredBooks booksData searchQuery = featuredBooks booksData otherQuery"
proof -
  have "take (min 6 (length booksData)) booksData = take 6 booksData"
    by (cases "6 \<le> length booksData") (simp_all add: min_def)
  then show ?thesis
    by (simp add: featuredBooks_def slice_def take_is_prefix min.commute)
qed

end
